theory Spec2Isabelle
  imports Main "HOL-Library.Sublist" "HOL-Library.Word"
begin

text \<open>
  A shallow embedding of the chargeback webhook handler: the validation of the webhook
  (\<open>webhookValidator.ts\<close>), the handler of the route \<open>chargeback\<close> with \<open>persistError\<close>
  and \<open>sanitizeRequestData\<close> (\<open>ChargebackWebhook/index.ts\<close>) and the pipeline
  \<open>ChargebackService.processChargeback\<close> with \<open>applyTagLogic\<close>. The database, the
  commerce platform and the chat service are the outside world: a call to one of them is
  an effect of the run, and its answer is given by an oracle. An exception is a value:
  a \<open>try\<close> block returns \<open>Inl\<close> of the exception or \<open>Inr\<close> of its result, and the
  \<open>catch\<close> block is a function of the exception.
\<close>

section \<open>JavaScript strings and values\<close>

text \<open>
  A JavaScript string is modelled as a \<^typ>\<open>string\<close>; one \<^typ>\<open>char\<close> stands for one
  code unit. \<open>String.prototype.includes\<close> is containment of a contiguous run of code
  units, which is \<^const>\<open>sublist\<close> with the arguments swapped.
\<close>

definition str_includes :: "string \<Rightarrow> string \<Rightarrow> bool" where
  "str_includes s t = sublist t s"

text \<open>An optional string is falsy when it is absent (undefined, null) or empty.\<close>

fun truthy :: "string option \<Rightarrow> bool" where
  "truthy None = False"
| "truthy (Some s) = (s \<noteq> [])"

text \<open>The expression \<open>x || d\<close> for an optional string \<open>x\<close> and a string \<open>d\<close>.\<close>

fun or_else :: "string option \<Rightarrow> string \<Rightarrow> string" where
  "or_else None d = d"
| "or_else (Some s) d = (if s \<noteq> [] then s else d)"

text \<open>
  \<open>String.prototype.trim\<close> removes white space and line terminators at both ends;
  among the code units below 256 these are 9 to 13, 32 and 160.
\<close>

definition is_space :: "char \<Rightarrow> bool" where
  "is_space c = (let n = (of_char c :: nat) in (9 \<le> n \<and> n \<le> 13) \<or> n = 32 \<or> n = 160)"

definition trim :: "string \<Rightarrow> string" where
  "trim s = rev (dropWhile is_space (rev (dropWhile is_space s)))"

text \<open>
  \<open>String.prototype.toLowerCase\<close> on code units below 256: the letters A to Z and the
  Latin-1 capitals 192 to 222 (except the multiplication sign 215) move up by 32.
\<close>

definition lower_char :: "char \<Rightarrow> char" where
  "lower_char c =
     (let n = (of_char c :: nat)
      in if (65 \<le> n \<and> n \<le> 90) \<or> (192 \<le> n \<and> n \<le> 222 \<and> n \<noteq> 215) then char_of (n + 32) else c)"

definition toLowerCase :: "string \<Rightarrow> string" where
  "toLowerCase s = map lower_char s"

text \<open>The decimal text of an integer, as a template literal prints a whole number.\<close>

fun show_nat :: "nat \<Rightarrow> string" where
  "show_nat n = (if n < 10 then [char_of (48 + n)] else show_nat (n div 10) @ [char_of (48 + n mod 10)])"

declare show_nat.simps [simp del]

definition show_int :: "int \<Rightarrow> string" where
  "show_int i = (if i < 0 then CHR ''-'' # show_nat (nat (- i)) else show_nat (nat i))"

text \<open>
  An exception value: the name of its constructor, its message and its stack text.
\<close>

record js_error =
  err_name :: string
  err_message :: string
  err_stack :: "string option"

text \<open>The result of \<open>parseFloat\<close>: not a number, or a double given by mantissa and exponent.\<close>

datatype js_number = NaN | Double int int

section \<open>Data model\<close>

text \<open>The interface \<open>ShopifyDispute\<close> (\<open>id\<close>, \<open>order_id\<close> and \<open>type\<close> carry a prefix).\<close>

record ShopifyDispute =
  d_id :: int
  d_order_id :: int
  amount :: string
  currency :: string
  reason :: string
  status :: string
  d_type :: string
  created_at :: string
  network_reason_code :: string
  evidence_due_by :: string

text \<open>
  The interface \<open>ShopifyCustomer\<close>. The order comes unvalidated out of the remote
  response (\<open>response.data.order\<close> has type \<open>any\<close>), so at run time the \<open>tags\<close> field can
  hold a value that is not a string; \<open>TagsNumber\<close> stands for a number there.
\<close>

datatype tags_value = TagsString string | TagsNumber int

record ShopifyCustomer =
  c_id :: int
  first_name :: "string option"
  last_name :: "string option"
  email :: "string option"
  tags :: "tags_value option"

record ShopifyOrder =
  o_id :: int
  o_name :: string
  customer :: "ShopifyCustomer option"

text \<open>
  The interfaces \<open>WebhookRecord\<close> and \<open>ErrorRecord\<close> of the database service. The
  field \<open>action\<close> of the first is \<open>record_action\<close> here, and the fields \<open>order_id\<close>,
  \<open>dispute_id\<close> and \<open>customer_email\<close> of the second carry the prefix \<open>error_\<close>; an
  optional field is an option. The time stamp is a number.
\<close>

record WebhookRecord =
  customer_name :: string
  customer_email :: string
  order_id :: int
  webhook_json :: string
  record_action :: string
  customer_tags_before :: string
  customer_tags_after :: string
  dispute_id :: int
  dispute_amount :: js_number
  dispute_currency :: string
  dispute_reason :: string
  dispute_status :: string
  processed_at :: "nat option"

record ErrorRecord =
  http_code :: nat
  error_message :: string
  error_type :: string
  function_name :: string
  error_order_id :: "int option"
  error_dispute_id :: "int option"
  error_customer_email :: "string option"
  stack_trace :: "string option"
  request_data :: "string option"
  environment :: string

text \<open>
  The interfaces \<open>HttpRequest\<close> and \<open>HttpResponseInit\<close>, and \<open>process.env\<close>. The
  field \<open>headers_get\<close> is \<open>request.headers.get\<close> and \<open>req_text\<close> is what
  \<open>request.text()\<close> resolves to.
\<close>

record HttpRequest =
  headers_get :: "string \<Rightarrow> string option"
  req_text :: string

record HttpResponseInit =
  resp_status :: nat
  resp_body :: "string option"

type_synonym process_env = "string \<Rightarrow> string option"

text \<open>
  What \<open>JSON.parse\<close> gives for a request body: a syntax error with its message, the
  value \<open>null\<close>, or an object, which the handler reads through the interface
  \<open>ShopifyDispute\<close>.
\<close>

datatype parse_result = SyntaxError string | JsonNull | JsonDispute ShopifyDispute

text \<open>
  The built-ins of the platform that the code calls are parameters of the model:
  \<open>JSON.parse\<close> and \<open>JSON.stringify\<close> on a dispute, \<open>parseFloat\<close>, the base64 text of
  the HMAC-SHA256 digest (\<open>createHmac('sha256', secret).update(body, 'utf8').digest('base64')\<close>),
  \<open>Buffer.from(s, 'base64')\<close>, and the exceptions the engine raises.
\<close>

record js_runtime =
  json_parse :: "string \<Rightarrow> parse_result"
  json_stringify :: "ShopifyDispute \<Rightarrow> string"
  parseFloat :: "string \<Rightarrow> js_number"
  hmac_sha256_base64 :: "string \<Rightarrow> string \<Rightarrow> string"
  buffer_from_base64 :: "string \<Rightarrow> 8 word list"
  property_of_null :: js_error
  not_a_function :: js_error
  buffer_length_mismatch :: js_error

section \<open>The tag-escalation rule\<close>

record TagDecision =
  shouldUpdate :: bool
  newTags :: string
  action :: string

text \<open>\<open>ChargebackService.applyTagLogic\<close>, branch for branch.\<close>

definition applyTagLogic :: "string \<Rightarrow> TagDecision" where
  "applyTagLogic currentTags =
     (let hasChargebackFlag1 = str_includes currentTags ''chargeback_flag1'';
          hasChargebackRisk = str_includes currentTags ''chargeback_risk''
      in if hasChargebackRisk then
           \<lparr>shouldUpdate = False, newTags = currentTags,
            action = ''Customer already has chargeback_risk, no need to add chargeback_flag1''\<rparr>
         else if \<not> hasChargebackFlag1 then
           \<lparr>shouldUpdate = True,
            newTags = (if currentTags \<noteq> [] then currentTags @ '', chargeback_flag1''
                       else ''chargeback_flag1''),
            action = ''Added tag: chargeback_flag1''\<rparr>
         else
           \<lparr>shouldUpdate = True,
            newTags = (if currentTags \<noteq> [] then currentTags @ '', chargeback_risk''
                       else ''chargeback_risk''),
            action = ''Added tag: chargeback_risk (customer already has chargeback_flag1)''\<rparr>)"

section \<open>Webhook validation\<close>

text \<open>
  \<open>crypto.timingSafeEqual\<close> throws when the two buffers differ in byte length and
  compares them otherwise.
\<close>

definition timingSafeEqual :: "js_runtime \<Rightarrow> 8 word list \<Rightarrow> 8 word list \<Rightarrow> js_error + bool" where
  "timingSafeEqual rt a b =
     (if length a \<noteq> length b then Inl (buffer_length_mismatch rt) else Inr (a = b))"

text \<open>
  The body of the \<open>try\<close> block of \<open>validateShopifyWebhook\<close> (the version with the base64
  digest, which the handler imports). \<open>Inl\<close> is a thrown exception. The header is read
  by the name the code passes to \<open>request.headers.get\<close>.
\<close>

definition validateShopifyWebhook_try ::
    "js_runtime \<Rightarrow> process_env \<Rightarrow> HttpRequest \<Rightarrow> string option \<Rightarrow> js_error + bool" where
  "validateShopifyWebhook_try rt env request body =
     (case env ''SHOPIFY_WEBHOOK_SECRET'' of
        None \<Rightarrow> Inr False
      | Some webhookSecret \<Rightarrow>
          if webhookSecret = [] then Inr False
          else
            (let hmacHeader = headers_get request ''X-Shopify-Hmac-Sha256'';
                 requestBody = or_else body (req_text request)
             in case hmacHeader of
                  None \<Rightarrow> Inr True
                | Some presented \<Rightarrow>
                    if presented = [] then Inr True
                    else
                      (let expectedHmac = hmac_sha256_base64 rt webhookSecret requestBody
                       in timingSafeEqual rt (buffer_from_base64 rt presented)
                            (buffer_from_base64 rt expectedHmac))))"

text \<open>The whole function: the \<open>catch\<close> block turns any exception into \<open>false\<close>.\<close>

definition validateShopifyWebhook ::
    "js_runtime \<Rightarrow> process_env \<Rightarrow> HttpRequest \<Rightarrow> string option \<Rightarrow> js_error + bool" where
  "validateShopifyWebhook rt env request body =
     (case validateShopifyWebhook_try rt env request body of
        Inl error \<Rightarrow> Inr False
      | Inr isValid \<Rightarrow> Inr isValid)"

definition supportedTopics :: "string list" where
  "supportedTopics =
     [''disputes/create'', ''disputes/update'', ''chargebacks/create'', ''chargebacks/update'']"

definition validateChargebackWebhook :: "HttpRequest \<Rightarrow> bool" where
  "validateChargebackWebhook request =
     (let topic = headers_get request ''x-shopify-topic''
      in case topic of
           None \<Rightarrow> False
         | Some topic \<Rightarrow> if topic = [] then False else topic \<in> set supportedTopics)"

definition validateShopDomain :: "process_env \<Rightarrow> HttpRequest \<Rightarrow> bool" where
  "validateShopDomain env request =
     (let expectedDomain = env ''SHOPIFY_SHOP_DOMAIN'';
          receivedDomain = headers_get request ''x-shopify-shop-domain''
      in if \<not> truthy expectedDomain then True
         else if \<not> truthy receivedDomain then False
         else receivedDomain = expectedDomain)"

section \<open>Environment detection\<close>

definition localHosts :: "string list" where
  "localHosts =
     [''localhost'', ''127.0.0.1'', ''0.0.0.0'', ''::1'',
      ''localhost:7071'', ''127.0.0.1:7071'', ''0.0.0.0:7071'']"

definition detectEnvironment :: "HttpRequest \<Rightarrow> string" where
  "detectEnvironment request =
     (let host = or_else (headers_get request ''host'') [];
          isLocalHost =
            list_ex (\<lambda>localHost. str_includes (toLowerCase host) (toLowerCase localHost)) localHosts;
          isDevelopmentHost =
            (str_includes host ''localhost'' \<or> str_includes host ''127.0.0.1''
             \<or> str_includes host ''dev.azurewebsites.net''
             \<or> str_includes host ''test.azurewebsites.net'')
      in if isLocalHost \<or> isDevelopmentHost then ''development'' else ''production'')"

definition getEnvironment :: "HttpRequest \<Rightarrow> string" where
  "getEnvironment request = detectEnvironment request"

section \<open>Sanitising request data\<close>

text \<open>The character class of the first replacement: the code units 0 to 31 and 127 to 159.\<close>

definition is_control :: "char \<Rightarrow> bool" where
  "is_control c = (let n = (of_char c :: nat) in n \<le> 31 \<or> (127 \<le> n \<and> n \<le> 159))"

text \<open>\<open>s.replace(/c/g, r)\<close> for a single character \<open>c\<close>.\<close>

definition replace_all :: "char \<Rightarrow> string \<Rightarrow> string \<Rightarrow> string" where
  "replace_all c r s = concat (map (\<lambda>x. if x = c then r else [x]) s)"

text \<open>
  \<open>JSON.stringify\<close> of a string: the double quote and the backslash are escaped, the code
  units below 32 are written as their short escape or as a four-digit hexadecimal escape.
\<close>

definition hex_digit :: "nat \<Rightarrow> char" where
  "hex_digit n = (if n < 10 then char_of (48 + n) else char_of (87 + n))"

definition json_escape :: "char \<Rightarrow> string" where
  "json_escape c =
     (let n = (of_char c :: nat)
      in if n = 8 then [CHR 0x5C, CHR ''b'']
         else if n = 9 then [CHR 0x5C, CHR ''t'']
         else if n = 10 then [CHR 0x5C, CHR ''n'']
         else if n = 12 then [CHR 0x5C, CHR ''f'']
         else if n = 13 then [CHR 0x5C, CHR ''r'']
         else if n = 34 then [CHR 0x5C, CHR 0x22]
         else if n = 92 then [CHR 0x5C, CHR 0x5C]
         else if n < 32 then
           [CHR 0x5C, CHR ''u'', CHR ''0'', CHR ''0'', hex_digit (n div 16), hex_digit (n mod 16)]
         else [c])"

definition json_quote :: "string \<Rightarrow> string" where
  "json_quote s = CHR 0x22 # concat (map json_escape s) @ [CHR 0x22]"

text \<open>
  \<open>sanitizeRequestData\<close>: a payload that parses is returned as it is; otherwise the three
  replacements run in the order of the source, after the removal of the control
  characters, and the result is wrapped in an object that \<open>JSON.stringify\<close> prints.
\<close>

definition sanitizeRequestData :: "js_runtime \<Rightarrow> string \<Rightarrow> string" where
  "sanitizeRequestData rt data =
     (case json_parse rt data of
        SyntaxError _ \<Rightarrow>
          (let sanitized =
                 replace_all (CHR 0x09) [CHR 0x5C, CHR ''t'']
                   (replace_all (CHR 0x0D) [CHR 0x5C, CHR ''r'']
                     (replace_all (CHR 0x0A) [CHR 0x5C, CHR ''n'']
                       (filter (\<lambda>c. \<not> is_control c) data)))
           in CHR ''{'' # json_quote ''original_data'' @ CHR '':'' # json_quote sanitized
                @ CHR '','' # json_quote ''length'' @ CHR '':'' # show_nat (length data)
                @ CHR '','' # json_quote ''error'' @ CHR '':'' # json_quote ''Invalid JSON data''
                @ [CHR ''}''])
      | _ \<Rightarrow> data)"

section \<open>Effects and the outside world\<close>

text \<open>
  The calls that leave the process, in the order in which they are made: the database
  service (\<open>testConnection\<close>, the two inserts, \<open>close\<close>), the commerce platform
  (\<open>getOrder\<close>, \<open>updateCustomerTags\<close>) and the chat service
  (\<open>sendWebhookNotification\<close> with its five arguments; \<open>None\<close> for the dispute is the
  empty object the handler passes). A run is described by the list of its effects, oldest
  first.
\<close>

datatype effect =
    TestConnection
  | InsertWebhookRecord WebhookRecord
  | InsertErrorRecord ErrorRecord
  | GetOrder int
  | UpdateCustomerTags int string
  | SendWebhookNotification "ShopifyDispute option" "string option" "string option"
      "string option" "string option"
  | PoolEnd

text \<open>
  The answers of the outside world. Each may depend on everything that happened before
  the call. None of these calls throws: each method of the three services catches its
  own exceptions, and the handler catches what \<open>close\<close> throws. The results of the
  inserts and of the notification are not used by the code (one is logged), so they have
  no oracle. A notification attempt is a call of \<open>sendWebhookNotification\<close>.
\<close>

record world =
  testConnection :: "effect list \<Rightarrow> bool"
  getOrder :: "effect list \<Rightarrow> int \<Rightarrow> ShopifyOrder option"
  updateCustomerTags :: "effect list \<Rightarrow> int \<Rightarrow> string \<Rightarrow> bool"
  now :: "effect list \<Rightarrow> nat"

fun is_persist :: "effect \<Rightarrow> bool" where
  "is_persist (InsertWebhookRecord _) = True"
| "is_persist (InsertErrorRecord _) = True"
| "is_persist _ = False"

fun is_notify :: "effect \<Rightarrow> bool" where
  "is_notify (SendWebhookNotification _ _ _ _ _) = True"
| "is_notify _ = False"

fun is_commerce :: "effect \<Rightarrow> bool" where
  "is_commerce (GetOrder _) = True"
| "is_commerce (UpdateCustomerTags _ _) = True"
| "is_commerce _ = False"

fun is_tag_update :: "effect \<Rightarrow> bool" where
  "is_tag_update (UpdateCustomerTags _ _) = True"
| "is_tag_update _ = False"

fun webhook_record_of :: "effect \<Rightarrow> WebhookRecord list" where
  "webhook_record_of (InsertWebhookRecord r) = [r]"
| "webhook_record_of _ = []"

fun error_record_of :: "effect \<Rightarrow> ErrorRecord list" where
  "error_record_of (InsertErrorRecord r) = [r]"
| "error_record_of _ = []"

text \<open>The records written and the notifications sent in a run, in order.\<close>

definition webhook_records :: "effect list \<Rightarrow> WebhookRecord list" where
  "webhook_records t = concat (map webhook_record_of t)"

definition error_records :: "effect list \<Rightarrow> ErrorRecord list" where
  "error_records t = concat (map error_record_of t)"

definition notifications :: "effect list \<Rightarrow> effect list" where
  "notifications t = filter is_notify t"

text \<open>No insert comes after a notification.\<close>

fun persist_before_notify :: "effect list \<Rightarrow> bool" where
  "persist_before_notify [] = True"
| "persist_before_notify (e # es) =
     ((is_notify e \<longrightarrow> \<not> list_ex is_persist es) \<and> persist_before_notify es)"

section \<open>The chargeback service\<close>

record ProcessResult =
  success :: bool
  statusCode :: "nat option"
  message :: "string option"

text \<open>The expression \<open>order.customer?.tags || ''\<close>: a number is falsy when it is zero.\<close>

fun tags_or_empty :: "tags_value option \<Rightarrow> tags_value" where
  "tags_or_empty None = TagsString []"
| "tags_or_empty (Some (TagsString s)) = TagsString s"
| "tags_or_empty (Some (TagsNumber n)) = (if n = 0 then TagsString [] else TagsNumber n)"

text \<open>
  The \<open>try\<close> block of \<open>ChargebackService.processChargeback\<close>. The arguments are the
  dispute, the optional request, the field \<open>dbAvailable\<close> of the service and the effects
  so far; the result is the returned object or the thrown exception, the field
  \<open>dbAvailable\<close> afterwards and the effects afterwards. A value of \<open>customerTags\<close> that is
  not a string has no method \<open>includes\<close>, so the call of \<open>applyTagLogic\<close> throws.
\<close>

definition processChargeback_try ::
    "world \<Rightarrow> js_runtime \<Rightarrow> ShopifyDispute \<Rightarrow> HttpRequest option \<Rightarrow> bool \<Rightarrow> effect list
     \<Rightarrow> (js_error + ProcessResult) \<times> bool \<times> effect list" where
  "processChargeback_try w rt dispute request dbAvailable0 t0 =
     (let dbAvailable = (if \<not> dbAvailable0 then testConnection w t0 else dbAvailable0);
          t1 = (if \<not> dbAvailable0 then t0 @ [TestConnection] else t0);
          order = getOrder w t1 (d_order_id dispute);
          t2 = t1 @ [GetOrder (d_order_id dispute)]
      in case order of
           None \<Rightarrow>
             (Inr \<lparr>success = False, statusCode = Some 404,
                   message = Some (''Order '' @ show_int (d_order_id dispute) @ '' not found'')\<rparr>,
              dbAvailable,
              if dbAvailable then
                t2 @ [InsertErrorRecord
                  \<lparr>http_code = 404,
                   error_message = ''Order '' @ show_int (d_order_id dispute) @ '' not found'',
                   error_type = ''OrderNotFound'',
                   function_name = ''ChargebackService.processChargeback'',
                   error_order_id = Some (d_order_id dispute),
                   error_dispute_id = Some (d_id dispute),
                   error_customer_email = Some ''email@not.identified.com'',
                   stack_trace = None,
                   request_data = None,
                   environment =
                     (case request of Some r \<Rightarrow> getEnvironment r | None \<Rightarrow> ''development'')\<rparr>]
              else t2)
         | Some order \<Rightarrow>
             (let customerName =
                    (case customer order of
                       Some c \<Rightarrow> trim (or_else (first_name c) [] @ '' '' @ or_else (last_name c) [])
                     | None \<Rightarrow> ''Customer not identified'');
                  customerEmail =
                    (case customer order of
                       Some c \<Rightarrow> or_else (email c) ''email@not.identified.com''
                     | None \<Rightarrow> ''email@not.identified.com'');
                  customerTagsValue =
                    (case customer order of
                       Some c \<Rightarrow> tags_or_empty (tags c)
                     | None \<Rightarrow> TagsString []);
                  orderName =
                    (if o_name order \<noteq> [] then o_name order
                     else CHR ''#'' # show_int (d_order_id dispute))
              in case customerTagsValue of
                   TagsNumber _ \<Rightarrow> (Inl (not_a_function rt), dbAvailable, t2)
                 | TagsString customerTags \<Rightarrow>
                     (let tagResult = applyTagLogic customerTags;
                          (finalTags, t3) =
                            (if shouldUpdate tagResult then
                               (case customer order of
                                  Some c \<Rightarrow>
                                    (let updateSuccess =
                                           updateCustomerTags w t2 (c_id c) (newTags tagResult);
                                         t = t2 @ [UpdateCustomerTags (c_id c) (newTags tagResult)]
                                     in if updateSuccess then (newTags tagResult, t)
                                        else (customerTags, t))
                                | None \<Rightarrow> (customerTags, t2))
                             else (customerTags, t2));
                          t4 =
                            (if dbAvailable then
                               t3 @ [InsertWebhookRecord
                                 \<lparr>customer_name = customerName,
                                  customer_email = customerEmail,
                                  order_id = d_order_id dispute,
                                  webhook_json = json_stringify rt dispute,
                                  record_action = action tagResult,
                                  customer_tags_before = customerTags,
                                  customer_tags_after = finalTags,
                                  dispute_id = d_id dispute,
                                  dispute_amount = parseFloat rt (amount dispute),
                                  dispute_currency = currency dispute,
                                  dispute_reason = reason dispute,
                                  dispute_status = status dispute,
                                  processed_at = Some (now w t3)\<rparr>]
                             else t3);
                          t5 = t4 @ [SendWebhookNotification (Some dispute)
                                       (Some (action tagResult)) (Some customerName)
                                       (Some customerEmail) (Some orderName)]
                      in (Inr \<lparr>success = True, statusCode = Some 200,
                                message = Some ''Chargeback processed successfully''\<rparr>,
                          dbAvailable, t5))))"

text \<open>
  The \<open>catch\<close> block of \<open>processChargeback\<close>: when the database is available, the order
  is fetched again for the e-mail address and an error record is written; then the
  failure is notified and status 500 is returned.
\<close>

definition processChargeback_catch ::
    "world \<Rightarrow> js_runtime \<Rightarrow> ShopifyDispute \<Rightarrow> HttpRequest option \<Rightarrow> js_error \<Rightarrow> bool
     \<Rightarrow> effect list \<Rightarrow> ProcessResult \<times> bool \<times> effect list" where
  "processChargeback_catch w rt dispute request error dbAvailable t =
     (let t1 =
            (if dbAvailable then
               (let order = getOrder w t (d_order_id dispute);
                    customerEmail =
                      (case order of
                         Some ord \<Rightarrow>
                           (case customer ord of
                              Some c \<Rightarrow> or_else (email c) ''email@not.identified.com''
                            | None \<Rightarrow> ''email@not.identified.com'')
                       | None \<Rightarrow> ''email@not.identified.com'')
                in t @ [GetOrder (d_order_id dispute),
                        InsertErrorRecord
                          \<lparr>http_code = 500,
                           error_message = err_message error,
                           error_type = err_name error,
                           function_name = ''ChargebackService.processChargeback'',
                           error_order_id = Some (d_order_id dispute),
                           error_dispute_id = Some (d_id dispute),
                           error_customer_email = Some customerEmail,
                           stack_trace = err_stack error,
                           request_data = Some (json_stringify rt dispute),
                           environment =
                             (case request of
                                Some r \<Rightarrow> getEnvironment r
                              | None \<Rightarrow> ''development'')\<rparr>])
             else t);
          t2 = t1 @ [SendWebhookNotification (Some dispute)
                       (Some ''Failed to process chargeback'') None None None]
      in (\<lparr>success = False, statusCode = Some 500, message = Some ''Internal server error''\<rparr>,
          dbAvailable, t2))"

definition processChargeback ::
    "world \<Rightarrow> js_runtime \<Rightarrow> ShopifyDispute \<Rightarrow> HttpRequest option \<Rightarrow> bool \<Rightarrow> effect list
     \<Rightarrow> ProcessResult \<times> bool \<times> effect list" where
  "processChargeback w rt dispute request dbAvailable0 t0 =
     (case processChargeback_try w rt dispute request dbAvailable0 t0 of
        (Inr result, dbAvailable, t) \<Rightarrow> (result, dbAvailable, t)
      | (Inl error, dbAvailable, t) \<Rightarrow>
          processChargeback_catch w rt dispute request error dbAvailable t)"

section \<open>The webhook handler\<close>

text \<open>\<open>persistError\<close>: the connection is tested, and the record is written if it is up.\<close>

definition persistError :: "world \<Rightarrow> ErrorRecord \<Rightarrow> effect list \<Rightarrow> effect list" where
  "persistError w errorData t =
     (let dbAvailable = testConnection w t;
          t1 = t @ [TestConnection]
      in if dbAvailable then t1 @ [InsertErrorRecord errorData] else t1)"

text \<open>
  The \<open>try\<close> block of the handler of the route \<open>chargeback\<close>. The service object is new,
  so its field \<open>dbAvailable\<close> starts as \<open>false\<close>. A body that parses to \<open>null\<close> makes the
  first property access on the dispute throw.
\<close>

definition handler_try ::
    "world \<Rightarrow> js_runtime \<Rightarrow> process_env \<Rightarrow> HttpRequest
     \<Rightarrow> (js_error + HttpResponseInit) \<times> bool \<times> effect list" where
  "handler_try w rt env request =
     (let body = req_text request
      in case validateShopifyWebhook rt env request (Some body) of
           Inl error \<Rightarrow> (Inl error, False, [])
         | Inr isValid \<Rightarrow>
             if \<not> isValid then
               (Inr \<lparr>resp_status = 401, resp_body = Some ''Unauthorized''\<rparr>, False,
                persistError w
                  \<lparr>http_code = 401, error_message = ''Invalid webhook signature'',
                   error_type = ''InvalidSignature'',
                   function_name = ''ChargebackWebhook.handler'',
                   error_order_id = None, error_dispute_id = None,
                   error_customer_email = None, stack_trace = None, request_data = None,
                   environment = getEnvironment request\<rparr> []
                @ [SendWebhookNotification None (Some ''Invalid webhook signature'')
                     None None None])
             else if \<not> validateChargebackWebhook request then
               (Inr \<lparr>resp_status = 400, resp_body = Some ''Unsupported webhook type''\<rparr>, False,
                persistError w
                  \<lparr>http_code = 400, error_message = ''Webhook is not a chargeback type'',
                   error_type = ''UnsupportedWebhookType'',
                   function_name = ''ChargebackWebhook.handler'',
                   error_order_id = None, error_dispute_id = None,
                   error_customer_email = None, stack_trace = None, request_data = None,
                   environment = getEnvironment request\<rparr> [])
             else if \<not> validateShopDomain env request then
               (Inr \<lparr>resp_status = 403, resp_body = Some ''Forbidden''\<rparr>, False,
                persistError w
                  \<lparr>http_code = 403, error_message = ''Invalid shop domain'',
                   error_type = ''InvalidShopDomain'',
                   function_name = ''ChargebackWebhook.handler'',
                   error_order_id = None, error_dispute_id = None,
                   error_customer_email = None, stack_trace = None, request_data = None,
                   environment = getEnvironment request\<rparr> [])
             else
               (case json_parse rt body of
                  SyntaxError parseMessage \<Rightarrow>
                    (Inr \<lparr>resp_status = 400, resp_body = Some ''Invalid JSON''\<rparr>, False,
                     persistError w
                       \<lparr>http_code = 400,
                        error_message = ''JSON parse error: '' @ parseMessage,
                        error_type = ''JSONParseError'',
                        function_name = ''ChargebackWebhook.handler'',
                        error_order_id = None, error_dispute_id = None,
                        error_customer_email = None, stack_trace = None,
                        request_data = Some (sanitizeRequestData rt body),
                        environment = getEnvironment request\<rparr> []
                     @ [SendWebhookNotification None
                          (Some (''JSON parse error: '' @ parseMessage)) None None None])
                | JsonNull \<Rightarrow> (Inl (property_of_null rt), False, [])
                | JsonDispute dispute \<Rightarrow>
                    if d_type dispute \<noteq> ''chargeback'' then
                      (Inr \<lparr>resp_status = 400, resp_body = Some ''Unsupported dispute type''\<rparr>,
                       False,
                       persistError w
                         \<lparr>http_code = 400,
                          error_message = ''Unsupported dispute type: '' @ d_type dispute,
                          error_type = ''UnsupportedDisputeType'',
                          function_name = ''ChargebackWebhook.handler'',
                          error_order_id = None, error_dispute_id = Some (d_id dispute),
                          error_customer_email = None, stack_trace = None,
                          request_data =
                            Some (sanitizeRequestData rt (json_stringify rt dispute)),
                          environment = getEnvironment request\<rparr> []
                       @ [SendWebhookNotification (Some dispute)
                            (Some (''Unsupported dispute type: '' @ d_type dispute))
                            None None None])
                    else
                      (case processChargeback w rt dispute (Some request) False [] of
                         (result, dbAvailable, t) \<Rightarrow>
                           if success result then
                             (Inr \<lparr>resp_status = 200,
                                   resp_body = Some ''Webhook processed successfully''\<rparr>,
                              dbAvailable, t)
                           else if statusCode result = Some 404 then
                             (Inr \<lparr>resp_status = 404, resp_body = message result\<rparr>,
                              dbAvailable, t)
                           else
                             (let code =
                                    (case statusCode result of
                                       Some c \<Rightarrow> if c \<noteq> 0 then c else 500
                                     | None \<Rightarrow> 500)
                              in (Inr \<lparr>resp_status = code,
                                        resp_body =
                                          Some (or_else (message result)
                                                  ''Internal server error'')\<rparr>,
                                  dbAvailable,
                                  persistError w
                                    \<lparr>http_code = code,
                                     error_message =
                                       or_else (message result) ''Failed to process chargeback'',
                                     error_type = ''ProcessingError'',
                                     function_name = ''ChargebackWebhook.handler'',
                                     error_order_id = Some (d_order_id dispute),
                                     error_dispute_id = Some (d_id dispute),
                                     error_customer_email = None, stack_trace = None,
                                     request_data = None,
                                     environment = getEnvironment request\<rparr> t
                                  @ [SendWebhookNotification (Some dispute)
                                       (Some ''Failed to process chargeback'')
                                       None None None])))))"

text \<open>
  The \<open>catch\<close> block of the handler: one error record, one notification, and the pool
  is closed when the service had found the database available.
\<close>

definition handler_catch ::
    "world \<Rightarrow> HttpRequest \<Rightarrow> js_error \<Rightarrow> bool \<Rightarrow> effect list
     \<Rightarrow> HttpResponseInit \<times> effect list" where
  "handler_catch w request error dbAvailable t =
     (let t1 = persistError w
                 \<lparr>http_code = 500, error_message = err_message error,
                  error_type = err_name error,
                  function_name = ''ChargebackWebhook.handler'',
                  error_order_id = None, error_dispute_id = None,
                  error_customer_email = Some ''email@not.identified.com'',
                  stack_trace = err_stack error, request_data = None,
                  environment = getEnvironment request\<rparr> t;
          t2 = t1 @ [SendWebhookNotification None
                       (Some (''General error: '' @ err_message error)) None None None];
          t3 = (if dbAvailable then t2 @ [PoolEnd] else t2)
      in (\<lparr>resp_status = 500, resp_body = Some ''Internal server error''\<rparr>, t3))"

text \<open>The handler: the response and the effects of one request.\<close>

definition handler ::
    "world \<Rightarrow> js_runtime \<Rightarrow> process_env \<Rightarrow> HttpRequest \<Rightarrow> HttpResponseInit \<times> effect list" where
  "handler w rt env request =
     (case handler_try w rt env request of
        (Inr response, dbAvailable, t) \<Rightarrow> (response, t)
      | (Inl error, dbAvailable, t) \<Rightarrow> handler_catch w request error dbAvailable t)"

section \<open>Concrete runs\<close>

text \<open>
  A runtime, an environment, requests and worlds on which the definitions above can be
  evaluated. The runtime decodes base64 text as \<open>Buffer.from(s, 'base64')\<close> does: over
  both alphabets, skipping other characters, up to the first padding character, a last
  group of two or three characters giving one or two bytes. It prints a dispute as JSON
  and parses that text back, and it knows the HMAC-SHA256 digest of the body \<open>b\<close> under
  the secret \<open>s\<close>.
\<close>

definition b64_value :: "char \<Rightarrow> nat option" where
  "b64_value c =
     (let n = (of_char c :: nat)
      in if 65 \<le> n \<and> n \<le> 90 then Some (n - 65)
         else if 97 \<le> n \<and> n \<le> 122 then Some (n - 71)
         else if 48 \<le> n \<and> n \<le> 57 then Some (n + 4)
         else if n = 43 \<or> n = 45 then Some 62
         else if n = 47 \<or> n = 95 then Some 63
         else None)"

fun sextets_to_bytes :: "nat list \<Rightarrow> 8 word list" where
  "sextets_to_bytes (a # b # c # d # rest) =
     [of_nat (a * 4 + b div 16), of_nat (b mod 16 * 16 + c div 4), of_nat (c mod 4 * 64 + d)]
     @ sextets_to_bytes rest"
| "sextets_to_bytes [a, b, c] = [of_nat (a * 4 + b div 16), of_nat (b mod 16 * 16 + c div 4)]"
| "sextets_to_bytes [a, b] = [of_nat (a * 4 + b div 16)]"
| "sextets_to_bytes _ = []"

definition base64_decode :: "string \<Rightarrow> 8 word list" where
  "base64_decode s =
     sextets_to_bytes (List.map_filter b64_value (takeWhile (\<lambda>c. c \<noteq> CHR ''='') s))"

definition dispute_json :: "ShopifyDispute \<Rightarrow> string" where
  "dispute_json d =
     CHR ''{'' # json_quote ''id'' @ CHR '':'' # show_int (d_id d)
     @ CHR '','' # json_quote ''order_id'' @ CHR '':'' # show_int (d_order_id d)
     @ CHR '','' # json_quote ''amount'' @ CHR '':'' # json_quote (amount d)
     @ CHR '','' # json_quote ''currency'' @ CHR '':'' # json_quote (currency d)
     @ CHR '','' # json_quote ''reason'' @ CHR '':'' # json_quote (reason d)
     @ CHR '','' # json_quote ''status'' @ CHR '':'' # json_quote (status d)
     @ CHR '','' # json_quote ''type'' @ CHR '':'' # json_quote (d_type d)
     @ CHR '','' # json_quote ''created_at'' @ CHR '':'' # json_quote (created_at d)
     @ CHR '','' # json_quote ''network_reason_code'' @ CHR '':''
         # json_quote (network_reason_code d)
     @ CHR '','' # json_quote ''evidence_due_by'' @ CHR '':'' # json_quote (evidence_due_by d)
     @ [CHR ''}'']"

definition example_dispute :: "string \<Rightarrow> ShopifyDispute" where
  "example_dispute ty =
     \<lparr>d_id = 1, d_order_id = 2, amount = ''10.00'', currency = ''USD'',
      reason = ''fraudulent'', status = ''needs_response'', d_type = ty,
      created_at = ''2025-01-01T00:00:00Z'', network_reason_code = ''4837'',
      evidence_due_by = ''2025-01-15T00:00:00Z''\<rparr>"

definition example_runtime :: "ShopifyDispute \<Rightarrow> js_runtime" where
  "example_runtime d =
     \<lparr>json_parse =
        (\<lambda>s. if s = ''null'' then JsonNull
             else if s = dispute_json d then JsonDispute d
             else SyntaxError ''Unexpected token''),
      json_stringify = dispute_json,
      parseFloat = (\<lambda>s. if s = ''10.00'' then Double 5 1 else NaN),
      hmac_sha256_base64 =
        (\<lambda>secret body. if secret = ''s'' \<and> body = ''b''
                        then ''J+avdKBhpfQNbQF2N2rjM3aOR3/fHR11aCiq8Rkv1mQ='' else []),
      buffer_from_base64 = base64_decode,
      property_of_null =
        \<lparr>err_name = ''TypeError'',
         err_message = ''Cannot read properties of null'',
         err_stack = Some ''TypeError: Cannot read properties of null''\<rparr>,
      not_a_function =
        \<lparr>err_name = ''TypeError'',
         err_message = ''currentTags.includes is not a function'',
         err_stack = Some ''TypeError: currentTags.includes is not a function''\<rparr>,
      buffer_length_mismatch =
        \<lparr>err_name = ''RangeError'',
         err_message = ''Input buffers must have the same byte length'',
         err_stack = Some ''RangeError: Input buffers must have the same byte length''\<rparr>\<rparr>"

text \<open>The secret is configured, the expected shop domain is not.\<close>

definition example_env :: process_env where
  "example_env = (\<lambda>name. if name = ''SHOPIFY_WEBHOOK_SECRET'' then Some ''s'' else None)"

text \<open>
  A request with the given topic and body and no signature header, and a request with
  the given signature header.
\<close>

definition example_request :: "string \<Rightarrow> string \<Rightarrow> HttpRequest" where
  "example_request topic body =
     \<lparr>headers_get =
        (\<lambda>name. if name = ''x-shopify-topic'' then Some topic
                else if name = ''host'' then Some ''shop.example.com''
                else None),
      req_text = body\<rparr>"

definition signed_request :: "string \<Rightarrow> string \<Rightarrow> HttpRequest" where
  "signed_request signature body =
     \<lparr>headers_get =
        (\<lambda>name. if name = ''X-Shopify-Hmac-Sha256'' then Some signature
                else if name = ''x-shopify-topic'' then Some ''disputes/create''
                else if name = ''host'' then Some ''shop.example.com''
                else None),
      req_text = body\<rparr>"

text \<open>
  A world whose database is up, whose order lookup gives the same answer every time and
  whose tag update gives the same answer every time.
\<close>

definition example_world :: "ShopifyOrder option \<Rightarrow> bool \<Rightarrow> world" where
  "example_world ord upd =
     \<lparr>testConnection = (\<lambda>t. True),
      getOrder = (\<lambda>t orderId. ord),
      updateCustomerTags = (\<lambda>t customerId newTags. upd),
      now = (\<lambda>t. 0)\<rparr>"

definition example_customer :: "tags_value option \<Rightarrow> ShopifyCustomer" where
  "example_customer tg =
     \<lparr>c_id = 7, first_name = Some ''Ada'', last_name = Some ''Lovelace'',
      email = Some ''ada@example.com'', tags = tg\<rparr>"

definition example_order :: "ShopifyCustomer option \<Rightarrow> ShopifyOrder" where
  "example_order c = \<lparr>o_id = 2, o_name = ''#1001'', customer = c\<rparr>"

text \<open>
  The conditions under which a request reaches the pipeline, and under which the
  pipeline reports a failure other than a missing order.
\<close>

definition passes_gates :: "js_runtime \<Rightarrow> process_env \<Rightarrow> HttpRequest \<Rightarrow> bool" where
  "passes_gates rt env request =
     (validateShopifyWebhook rt env request (Some (req_text request)) = Inr True
      \<and> validateChargebackWebhook request \<and> validateShopDomain env request)"


text \<open>
  A chargeback request without signature header, the runtime that parses it, and a world
  in which the customer of the order has the number 5 in the field \<open>tags\<close>.
\<close>

definition chargeback_runtime :: js_runtime where
  "chargeback_runtime = example_runtime (example_dispute ''chargeback'')"

definition chargeback_request :: HttpRequest where
  "chargeback_request =
     example_request ''disputes/create'' (dispute_json (example_dispute ''chargeback''))"

definition bad_tags_world :: world where
  "bad_tags_world =
     example_world (Some (example_order (Some (example_customer (Some (TagsNumber 5)))))) True"


section \<open>The tag ladder\<close>

lemma sublist_avoid_sep:
  assumes "c \<notin> set t"
  shows "sublist t (xs @ c # ys) \<longleftrightarrow> sublist t xs \<or> sublist t ys"
proof
  assume "sublist t (xs @ c # ys)"
  then obtain ps ss where eq: "xs @ c # ys = ps @ t @ ss"
    by (auto simp: sublist_def)
  show "sublist t xs \<or> sublist t ys"
  proof (cases "length (ps @ t) \<le> length xs")
    case True
    from eq have "take (length (ps @ t)) (xs @ c # ys) = ps @ t"
      by simp
    with True have "take (length (ps @ t)) xs = ps @ t"
      by simp
    then have "xs = ps @ t @ drop (length (ps @ t)) xs"
      by (metis append_assoc append_take_drop_id)
    then show ?thesis
      unfolding sublist_def by blast
  next
    case False
    then have long: "length xs < length ps + length t"
      by simp
    show ?thesis
    proof (cases "length xs < length ps")
      case True
      from eq have "drop (Suc (length xs)) (xs @ c # ys) = drop (Suc (length xs)) (ps @ t @ ss)"
        by simp
      with True have "ys = drop (Suc (length xs)) ps @ t @ ss"
        by simp
      then show ?thesis
        unfolding sublist_def by blast
    next
      case False
      with long have i: "length xs - length ps < length t" and le: "length ps \<le> length xs"
        by simp_all
      from eq have "(xs @ c # ys) ! length xs = (ps @ t @ ss) ! length xs"
        by simp
      with i le have "c = t ! (length xs - length ps)"
        by (simp add: nth_append)
      with i have "c \<in> set t"
        by simp
      with assms show ?thesis
        by simp
    qed
  qed
next
  assume "sublist t xs \<or> sublist t ys"
  then show "sublist t (xs @ c # ys)"
  proof
    assume "sublist t xs"
    then obtain ps ss where "xs = ps @ t @ ss"
      by (auto simp: sublist_def)
    then have "xs @ c # ys = ps @ t @ (ss @ c # ys)"
      by simp
    then show ?thesis
      unfolding sublist_def by blast
  next
    assume "sublist t ys"
    then obtain ps ss where "ys = ps @ t @ ss"
      by (auto simp: sublist_def)
    then have "xs @ c # ys = (xs @ c # ps) @ t @ ss"
      by simp
    then show ?thesis
      unfolding sublist_def by blast
  qed
qed

lemma includes_append_tag:
  assumes "CHR '','' \<notin> set t" and "CHR '' '' \<notin> set t"
  shows "str_includes (s @ CHR '','' # CHR '' '' # u) t \<longleftrightarrow> str_includes s t \<or> str_includes u t"
proof -
  have "sublist t (s @ CHR '','' # (CHR '' '' # u)) \<longleftrightarrow> sublist t s \<or> sublist t (CHR '' '' # u)"
    using assms(1) by (rule sublist_avoid_sep)
  moreover have "sublist t ([] @ CHR '' '' # u) \<longleftrightarrow> sublist t [] \<or> sublist t u"
    using assms(2) by (rule sublist_avoid_sep)
  moreover have "sublist t [] \<Longrightarrow> sublist t u"
    by simp
  ultimately show ?thesis
    unfolding str_includes_def by auto
qed

lemma risk_not_in_flag1: "\<not> str_includes ''chargeback_flag1'' ''chargeback_risk''"
  unfolding str_includes_def by code_simp

lemma flag1_in_flag1: "str_includes ''chargeback_flag1'' ''chargeback_flag1''"
  unfolding str_includes_def by simp

lemma includes_suffix_tag: "str_includes (s @ '', '' @ t) t"
  unfolding str_includes_def by (metis append_Nil2 append_assoc sublist_appendI)

lemma flag1_step:
  assumes "\<not> str_includes s ''chargeback_risk''" and "\<not> str_includes s ''chargeback_flag1''"
  shows "applyTagLogic s =
           \<lparr>shouldUpdate = True,
            newTags = (if s = [] then ''chargeback_flag1'' else s @ '', chargeback_flag1''),
            action = ''Added tag: chargeback_flag1''\<rparr>"
  using assms by (simp add: applyTagLogic_def)

lemma after_flag1:
  assumes "\<not> str_includes s ''chargeback_risk''"
  shows "\<not> str_includes (if s = [] then ''chargeback_flag1'' else s @ '', chargeback_flag1'') ''chargeback_risk''"
    and "str_includes (if s = [] then ''chargeback_flag1'' else s @ '', chargeback_flag1'') ''chargeback_flag1''"
proof -
  have "str_includes (s @ CHR '','' # CHR '' '' # ''chargeback_flag1'') ''chargeback_risk''
        \<longleftrightarrow> str_includes s ''chargeback_risk'' \<or> str_includes ''chargeback_flag1'' ''chargeback_risk''"
    by (rule includes_append_tag) simp_all
  with assms risk_not_in_flag1
  show "\<not> str_includes (if s = [] then ''chargeback_flag1'' else s @ '', chargeback_flag1'') ''chargeback_risk''"
    by simp
  have "str_includes (s @ '', '' @ ''chargeback_flag1'') ''chargeback_flag1''"
    by (rule includes_suffix_tag)
  with flag1_in_flag1
  show "str_includes (if s = [] then ''chargeback_flag1'' else s @ '', chargeback_flag1'') ''chargeback_flag1''"
    by simp
qed

lemma risk_step:
  assumes "\<not> str_includes s ''chargeback_risk''" and "str_includes s ''chargeback_flag1''"
  shows "applyTagLogic s =
           \<lparr>shouldUpdate = True, newTags = s @ '', chargeback_risk'',
            action = ''Added tag: chargeback_risk (customer already has chargeback_flag1)''\<rparr>"
proof -
  from assms(2) have "s \<noteq> []"
    by (auto simp: str_includes_def)
  with assms show ?thesis
    by (simp add: applyTagLogic_def)
qed

lemma noop_step:
  assumes "str_includes s ''chargeback_risk''"
  shows "applyTagLogic s =
           \<lparr>shouldUpdate = False, newTags = s,
            action = ''Customer already has chargeback_risk, no need to add chargeback_flag1''\<rparr>"
  using assms by (simp add: applyTagLogic_def)

text \<open>
  C2. The rule as a function of the tag string \<open>s\<close>: with \<open>chargeback_risk\<close> in \<open>s\<close> nothing
  is updated and the tags stay \<open>s\<close>; otherwise, without \<open>chargeback_flag1\<close> in \<open>s\<close>, the
  new tags are \<open>s\<close> followed by \<open>, chargeback_flag1\<close> (the bare tag when \<open>s\<close> is empty);
  otherwise the new tags are \<open>s\<close> followed by \<open>, chargeback_risk\<close>. For \<open>s\<close> with neither
  tag, the first application adds \<open>chargeback_flag1\<close>, the second adds \<open>chargeback_risk\<close>
  and the third changes nothing.
\<close>

theorem applyTagLogic_ladder:
  "(str_includes s ''chargeback_risk'' \<longrightarrow>
      \<not> shouldUpdate (applyTagLogic s) \<and> newTags (applyTagLogic s) = s)
   \<and> (\<not> str_includes s ''chargeback_risk'' \<and> \<not> str_includes s ''chargeback_flag1'' \<longrightarrow>
      shouldUpdate (applyTagLogic s)
      \<and> newTags (applyTagLogic s) = (if s = [] then ''chargeback_flag1'' else s @ '', chargeback_flag1''))
   \<and> (\<not> str_includes s ''chargeback_risk'' \<and> str_includes s ''chargeback_flag1'' \<longrightarrow>
      shouldUpdate (applyTagLogic s) \<and> newTags (applyTagLogic s) = s @ '', chargeback_risk'')
   \<and> (\<not> str_includes s ''chargeback_risk'' \<and> \<not> str_includes s ''chargeback_flag1'' \<longrightarrow>
      (let s1 = newTags (applyTagLogic s); s2 = newTags (applyTagLogic s1)
       in s1 = (if s = [] then ''chargeback_flag1'' else s @ '', chargeback_flag1'')
          \<and> shouldUpdate (applyTagLogic s1) \<and> s2 = s1 @ '', chargeback_risk''
          \<and> \<not> shouldUpdate (applyTagLogic s2) \<and> newTags (applyTagLogic s2) = s2))"
proof (intro conjI impI)
  assume "str_includes s ''chargeback_risk''"
  then show "\<not> shouldUpdate (applyTagLogic s)" and "newTags (applyTagLogic s) = s"
    by (simp_all add: noop_step)
next
  assume a: "\<not> str_includes s ''chargeback_risk'' \<and> \<not> str_includes s ''chargeback_flag1''"
  then show "shouldUpdate (applyTagLogic s)"
    and "newTags (applyTagLogic s) = (if s = [] then ''chargeback_flag1'' else s @ '', chargeback_flag1'')"
    by (simp_all add: flag1_step)
next
  assume "\<not> str_includes s ''chargeback_risk'' \<and> str_includes s ''chargeback_flag1''"
  then show "shouldUpdate (applyTagLogic s)" and "newTags (applyTagLogic s) = s @ '', chargeback_risk''"
    by (simp_all add: risk_step)
next
  assume a: "\<not> str_includes s ''chargeback_risk'' \<and> \<not> str_includes s ''chargeback_flag1''"
  define s1 where "s1 = (if s = [] then ''chargeback_flag1'' else s @ '', chargeback_flag1'')"
  define s2 where "s2 = s1 @ '', chargeback_risk''"
  from a have e1: "newTags (applyTagLogic s) = s1"
    by (simp add: flag1_step s1_def)
  from a have "\<not> str_includes s ''chargeback_risk''"
    by simp
  then have "\<not> str_includes s1 ''chargeback_risk''" and "str_includes s1 ''chargeback_flag1''"
    unfolding s1_def by (rule after_flag1)+
  then have d2: "applyTagLogic s1 =
      \<lparr>shouldUpdate = True, newTags = s2,
       action = ''Added tag: chargeback_risk (customer already has chargeback_flag1)''\<rparr>"
    unfolding s2_def by (rule risk_step)
  have "str_includes (s1 @ '', '' @ ''chargeback_risk'') ''chargeback_risk''"
    by (rule includes_suffix_tag)
  then have "str_includes s2 ''chargeback_risk''"
    by (simp add: s2_def)
  then have d3: "applyTagLogic s2 =
      \<lparr>shouldUpdate = False, newTags = s2,
       action = ''Customer already has chargeback_risk, no need to add chargeback_flag1''\<rparr>"
    by (rule noop_step)
  show "let s1 = newTags (applyTagLogic s); s2 = newTags (applyTagLogic s1)
       in s1 = (if s = [] then ''chargeback_flag1'' else s @ '', chargeback_flag1'')
          \<and> shouldUpdate (applyTagLogic s1) \<and> s2 = s1 @ '', chargeback_risk''
          \<and> \<not> shouldUpdate (applyTagLogic s2) \<and> newTags (applyTagLogic s2) = s2"
    unfolding Let_def e1 d2 using d3 by (simp add: s1_def s2_def)
qed

theorem applyTagLogic_ladder_witness:
  "newTags (applyTagLogic '''') = ''chargeback_flag1''
   \<and> newTags (applyTagLogic ''chargeback_flag1'') = ''chargeback_flag1, chargeback_risk''
   \<and> \<not> shouldUpdate (applyTagLogic ''chargeback_flag1, chargeback_risk'')
   \<and> newTags (applyTagLogic ''chargeback_flag1, chargeback_risk'') = ''chargeback_flag1, chargeback_risk''
   \<and> newTags (applyTagLogic ''vip, chargeback_flag1'') = ''vip, chargeback_flag1, chargeback_risk''"
proof -
  have n: "\<not> str_includes '''' ''chargeback_risk'' \<and> \<not> str_includes '''' ''chargeback_flag1''"
    by (simp add: str_includes_def)
  have f: "\<not> str_includes ''vip, chargeback_flag1'' ''chargeback_risk''
           \<and> str_includes ''vip, chargeback_flag1'' ''chargeback_flag1''"
    unfolding str_includes_def by code_simp
  have r: "str_includes ''chargeback_flag1, chargeback_risk'' ''chargeback_risk''"
    unfolding str_includes_def by code_simp
  from applyTagLogic_ladder [of "[]", unfolded Let_def] n
  have a: "newTags (applyTagLogic []) = ''chargeback_flag1''
      \<and> newTags (applyTagLogic ''chargeback_flag1'') = ''chargeback_flag1, chargeback_risk''"
    by auto
  from applyTagLogic_ladder [of "''vip, chargeback_flag1''"] f
  have b: "newTags (applyTagLogic ''vip, chargeback_flag1'') = ''vip, chargeback_flag1, chargeback_risk''"
    by simp
  from applyTagLogic_ladder [of "''chargeback_flag1, chargeback_risk''"] r
  have c: "\<not> shouldUpdate (applyTagLogic ''chargeback_flag1, chargeback_risk'')
      \<and> newTags (applyTagLogic ''chargeback_flag1, chargeback_risk'') = ''chargeback_flag1, chargeback_risk''"
    by simp
  from a b c show ?thesis
    by simp
qed

section \<open>The runs of the pipeline and of the handler\<close>

lemma records_append [simp]:
  "webhook_records (a @ b) = webhook_records a @ webhook_records b"
  "error_records (a @ b) = error_records a @ error_records b"
  "notifications (a @ b) = notifications a @ notifications b"
  by (simp_all add: webhook_records_def error_records_def notifications_def)

lemma records_Nil [simp]:
  "webhook_records [] = []" "error_records [] = []" "notifications [] = []"
  by (simp_all add: webhook_records_def error_records_def notifications_def)

lemma records_Cons [simp]:
  "webhook_records (e # t) = webhook_record_of e @ webhook_records t"
  "error_records (e # t) = error_record_of e @ error_records t"
  "notifications (e # t) = (if is_notify e then e # notifications t else notifications t)"
  by (simp_all add: webhook_records_def error_records_def notifications_def)

lemma applyTagLogic_empty:
  "applyTagLogic [] =
     \<lparr>shouldUpdate = True, newTags = ''chargeback_flag1'', action = ''Added tag: chargeback_flag1''\<rparr>"
  by (simp add: applyTagLogic_def str_includes_def)

lemma processChargeback_not_found:
  assumes "getOrder w (if db0 then t0 else t0 @ [TestConnection]) (d_order_id d) = None"
  shows "processChargeback w rt d req db0 t0 =
           (\<lparr>success = False, statusCode = Some 404,
             message = Some (''Order '' @ show_int (d_order_id d) @ '' not found'')\<rparr>,
            db0 \<or> testConnection w t0,
            (if db0 then t0 else t0 @ [TestConnection]) @ GetOrder (d_order_id d) #
            (if db0 \<or> testConnection w t0 then
               [InsertErrorRecord
                  \<lparr>http_code = 404,
                   error_message = ''Order '' @ show_int (d_order_id d) @ '' not found'',
                   error_type = ''OrderNotFound'',
                   function_name = ''ChargebackService.processChargeback'',
                   error_order_id = Some (d_order_id d),
                   error_dispute_id = Some (d_id d),
                   error_customer_email = Some ''email@not.identified.com'',
                   stack_trace = None, request_data = None,
                   environment = (case req of Some r \<Rightarrow> getEnvironment r | None \<Rightarrow> ''development'')\<rparr>]
             else []))"
  using assms by (cases db0) (simp_all add: processChargeback_def processChargeback_try_def Let_def)

lemma processChargeback_no_customer:
  assumes "getOrder w (if db0 then t0 else t0 @ [TestConnection]) (d_order_id d) = Some ord"
    and "customer ord = None"
  shows "processChargeback w rt d req db0 t0 =
           (\<lparr>success = True, statusCode = Some 200,
             message = Some ''Chargeback processed successfully''\<rparr>,
            db0 \<or> testConnection w t0,
            (if db0 then t0 else t0 @ [TestConnection]) @ GetOrder (d_order_id d) #
            (if db0 \<or> testConnection w t0 then
               [InsertWebhookRecord
                  \<lparr>customer_name = ''Customer not identified'',
                   customer_email = ''email@not.identified.com'',
                   order_id = d_order_id d,
                   webhook_json = json_stringify rt d,
                   record_action = ''Added tag: chargeback_flag1'',
                   customer_tags_before = [],
                   customer_tags_after = [],
                   dispute_id = d_id d,
                   dispute_amount = parseFloat rt (amount d),
                   dispute_currency = currency d,
                   dispute_reason = reason d,
                   dispute_status = status d,
                   processed_at =
                     Some (now w ((if db0 then t0 else t0 @ [TestConnection]) @ [GetOrder (d_order_id d)]))\<rparr>]
             else [])
            @ [SendWebhookNotification (Some d) (Some ''Added tag: chargeback_flag1'')
                 (Some ''Customer not identified'') (Some ''email@not.identified.com'')
                 (Some (if o_name ord \<noteq> [] then o_name ord else CHR ''#'' # show_int (d_order_id d)))])"
  using assms
  by (cases db0)
     (simp_all add: processChargeback_def processChargeback_try_def Let_def applyTagLogic_empty)


lemma processChargeback_with_customer:
  assumes "getOrder w (if db0 then t0 else t0 @ [TestConnection]) (d_order_id d) = Some ord"
    and "customer ord = Some c"
    and "tags_or_empty (tags c) = TagsString ctags"
    and "shouldUpdate (applyTagLogic ctags)"
  shows "processChargeback w rt d req db0 t0 =
           (\<lparr>success = True, statusCode = Some 200,
             message = Some ''Chargeback processed successfully''\<rparr>,
            db0 \<or> testConnection w t0,
            (if db0 then t0 else t0 @ [TestConnection])
            @ [GetOrder (d_order_id d),
               UpdateCustomerTags (c_id c) (newTags (applyTagLogic ctags))]
            @ (if db0 \<or> testConnection w t0 then
               [InsertWebhookRecord
                  \<lparr>customer_name = trim (or_else (first_name c) [] @ '' '' @ or_else (last_name c) []),
                   customer_email = or_else (email c) ''email@not.identified.com'',
                   order_id = d_order_id d,
                   webhook_json = json_stringify rt d,
                   record_action = action (applyTagLogic ctags),
                   customer_tags_before = ctags,
                   customer_tags_after =
                     (if updateCustomerTags w
                           ((if db0 then t0 else t0 @ [TestConnection]) @ [GetOrder (d_order_id d)])
                           (c_id c) (newTags (applyTagLogic ctags))
                      then newTags (applyTagLogic ctags) else ctags),
                   dispute_id = d_id d,
                   dispute_amount = parseFloat rt (amount d),
                   dispute_currency = currency d,
                   dispute_reason = reason d,
                   dispute_status = status d,
                   processed_at =
                     Some (now w ((if db0 then t0 else t0 @ [TestConnection])
                                  @ [GetOrder (d_order_id d),
                                     UpdateCustomerTags (c_id c) (newTags (applyTagLogic ctags))]))\<rparr>]
             else [])
            @ [SendWebhookNotification (Some d) (Some (action (applyTagLogic ctags)))
                 (Some (trim (or_else (first_name c) [] @ '' '' @ or_else (last_name c) [])))
                 (Some (or_else (email c) ''email@not.identified.com''))
                 (Some (if o_name ord \<noteq> [] then o_name ord else CHR ''#'' # show_int (d_order_id d)))])"
  using assms
  by (cases db0)
     (simp_all add: processChargeback_def processChargeback_try_def Let_def)

lemma newTags_changes: "shouldUpdate (applyTagLogic s) \<Longrightarrow> newTags (applyTagLogic s) \<noteq> s"
  by (auto simp: applyTagLogic_def Let_def split: if_splits)


lemma handler_chargeback:
  assumes "passes_gates rt env request"
    and "json_parse rt (req_text request) = JsonDispute d"
    and "d_type d = ''chargeback''"
  shows "handler w rt env request =
           (case processChargeback w rt d (Some request) False [] of
              (result, dbAvailable, t) \<Rightarrow>
                if success result then
                  (\<lparr>resp_status = 200, resp_body = Some ''Webhook processed successfully''\<rparr>, t)
                else if statusCode result = Some 404 then
                  (\<lparr>resp_status = 404, resp_body = message result\<rparr>, t)
                else
                  (\<lparr>resp_status =
                      (case statusCode result of Some c \<Rightarrow> if c \<noteq> 0 then c else 500 | None \<Rightarrow> 500),
                    resp_body = Some (or_else (message result) ''Internal server error'')\<rparr>,
                   persistError w
                     \<lparr>http_code =
                        (case statusCode result of Some c \<Rightarrow> if c \<noteq> 0 then c else 500 | None \<Rightarrow> 500),
                      error_message = or_else (message result) ''Failed to process chargeback'',
                      error_type = ''ProcessingError'',
                      function_name = ''ChargebackWebhook.handler'',
                      error_order_id = Some (d_order_id d),
                      error_dispute_id = Some (d_id d),
                      error_customer_email = None, stack_trace = None,
                      request_data = None,
                      environment = getEnvironment request\<rparr> t
                   @ [SendWebhookNotification (Some d) (Some ''Failed to process chargeback'')
                        None None None]))"
  using assms
  by (simp add: handler_def handler_try_def passes_gates_def Let_def split: prod.splits)

lemma example_passes_gates:
  "passes_gates (example_runtime d) example_env (example_request ''disputes/create'' body)"
  by (simp add: passes_gates_def validateShopifyWebhook_def validateShopifyWebhook_try_def
      validateChargebackWebhook_def validateShopDomain_def supportedTopics_def
      example_env_def example_request_def)

lemma example_parse:
  "json_parse (example_runtime d) (req_text (example_request topic (dispute_json d))) = JsonDispute d"
  by (simp add: example_runtime_def example_request_def dispute_json_def)

lemma example_type [simp]: "d_type (example_dispute ty) = ty"
  by (simp add: example_dispute_def)

lemma validateShopifyWebhook_returns:
  "validateShopifyWebhook rt env request body = Inr True
   \<or> validateShopifyWebhook rt env request body = Inr False"
  by (simp add: validateShopifyWebhook_def split: sum.splits)

lemma persistError_no_commerce:
  "list_ex is_commerce (persistError w r t) = list_ex is_commerce t"
  by (simp add: persistError_def Let_def)

lemma persistError_records [simp]:
  "error_records (persistError w r t) = error_records t @ (if testConnection w t then [r] else [])"
  "webhook_records (persistError w r t) = webhook_records t"
  "notifications (persistError w r t) = notifications t"
  by (simp_all add: persistError_def Let_def)




lemma persistError_order [simp]:
  "persist_before_notify (persistError w r []) "
  "list_ex is_notify (persistError w r t) = list_ex is_notify t"
  by (simp_all add: persistError_def Let_def)


lemma try_calls_getOrder:
  "case processChargeback_try w rt d req db0 t0 of
     (outcome, db, t) \<Rightarrow> list_ex is_commerce t"
  by (simp add: processChargeback_try_def Let_def
      split: option.splits tags_value.splits prod.splits)

lemma processChargeback_catch_run:
  "processChargeback_catch w rt d req error db t =
     (\<lparr>success = False, statusCode = Some 500, message = Some ''Internal server error''\<rparr>, db,
      t @ (if db then
             [GetOrder (d_order_id d),
              InsertErrorRecord
                \<lparr>http_code = 500, error_message = err_message error,
                 error_type = err_name error,
                 function_name = ''ChargebackService.processChargeback'',
                 error_order_id = Some (d_order_id d),
                 error_dispute_id = Some (d_id d),
                 error_customer_email =
                   Some (case getOrder w t (d_order_id d) of
                           Some ord \<Rightarrow>
                             (case customer ord of
                                Some c \<Rightarrow> or_else (email c) ''email@not.identified.com''
                              | None \<Rightarrow> ''email@not.identified.com'')
                         | None \<Rightarrow> ''email@not.identified.com''),
                 stack_trace = err_stack error,
                 request_data = Some (json_stringify rt d),
                 environment =
                   (case req of Some r \<Rightarrow> getEnvironment r | None \<Rightarrow> ''development'')\<rparr>]
           else [])
        @ [SendWebhookNotification (Some d) (Some ''Failed to process chargeback'')
             None None None])"
  by (simp add: processChargeback_catch_def Let_def)

lemma processChargeback_calls_getOrder:
  "list_ex is_commerce (snd (snd (processChargeback w rt d req db0 t0)))"
proof (cases "processChargeback_try w rt d req db0 t0")
  case (fields outcome db t)
  with try_calls_getOrder [of w rt d req db0 t0] have "list_ex is_commerce t"
    by simp
  with fields show ?thesis
    by (cases outcome) (simp_all add: processChargeback_def processChargeback_catch_run)
qed







lemma bad_tags_records:
  "map (\<lambda>r. (http_code r, error_type r, function_name r))
       (error_records (snd (handler bad_tags_world chargeback_runtime example_env chargeback_request)))
     = [(500, ''TypeError'', ''ChargebackService.processChargeback''),
        (500, ''ProcessingError'', ''ChargebackWebhook.handler'')]"
  by code_simp

section \<open>The order that is not found\<close>

text \<open>
  C4. When the order lookup returns no order, the pipeline returns a failure with status
  404, writes one error record with code 404 and kind OrderNotFound if the database is
  available and none otherwise, writes no webhook record and sends no notification; the
  handler then answers 404 and adds no effect of its own.
\<close>

theorem order_not_found_is_silent:
  assumes "getOrder w [TestConnection] (d_order_id d) = None"
    and "passes_gates rt env request"
    and "json_parse rt (req_text request) = JsonDispute d"
    and "d_type d = ''chargeback''"
  shows "(case processChargeback w rt d (Some request) False [] of
            (result, dbAvailable, t) \<Rightarrow>
              \<not> success result \<and> statusCode result = Some 404
              \<and> dbAvailable = testConnection w []
              \<and> notifications t = [] \<and> webhook_records t = []
              \<and> map http_code (error_records t) = (if dbAvailable then [404] else [])
              \<and> map error_type (error_records t) = (if dbAvailable then [''OrderNotFound''] else []))
         \<and> (case handler w rt env request of
               (response, t) \<Rightarrow>
                 resp_status response = 404
                 \<and> notifications t = [] \<and> webhook_records t = []
                 \<and> map http_code (error_records t) = (if testConnection w [] then [404] else [])
                 \<and> map error_type (error_records t)
                     = (if testConnection w [] then [''OrderNotFound''] else []))"
proof -
  from assms(1) have nf: "getOrder w (if False then [] else [] @ [TestConnection]) (d_order_id d) = None"
    by simp
  note run = processChargeback_not_found [OF nf, of rt "Some request"]
  show ?thesis
    by (simp add: handler_chargeback [OF assms(2-4)] run)
qed


theorem order_not_found_is_silent_witness:
  "resp_status (fst (handler (example_world None True)
      (example_runtime (example_dispute ''chargeback'')) example_env
      (example_request ''disputes/create'' (dispute_json (example_dispute ''chargeback''))))) = 404
   \<and> notifications (snd (handler (example_world None True)
      (example_runtime (example_dispute ''chargeback'')) example_env
      (example_request ''disputes/create'' (dispute_json (example_dispute ''chargeback''))))) = []
   \<and> map error_type (error_records (snd (handler (example_world None True)
      (example_runtime (example_dispute ''chargeback'')) example_env
      (example_request ''disputes/create'' (dispute_json (example_dispute ''chargeback'')))))) =
       [''OrderNotFound'']"
proof -
  have nf: "getOrder (example_world None True) [TestConnection]
              (d_order_id (example_dispute ''chargeback'')) = None"
    by (simp add: example_world_def)
  have up: "testConnection (example_world None True) [] = True"
    by (simp add: example_world_def)
  from order_not_found_is_silent [OF nf example_passes_gates example_parse example_type] up
  show ?thesis
    by (simp add: case_prod_beta)
qed

section \<open>The order without a customer\<close>

text \<open>
  C9. When the order is found and carries no customer, the pipeline calls no tag update;
  if the database is available it writes one webhook record whose name and e-mail are the
  placeholders, whose tags before and after are both empty and whose action says that
  \<open>chargeback_flag1\<close> was added; it sends one notification with that action and returns
  success with status 200.
\<close>

theorem order_without_customer:
  assumes "getOrder w (if db0 then t0 else t0 @ [TestConnection]) (d_order_id d) = Some ord"
    and "customer ord = None"
  shows "case processChargeback w rt d req db0 t0 of
           (result, dbAvailable, t) \<Rightarrow>
             success result \<and> statusCode result = Some 200
             \<and> dbAvailable = (db0 \<or> testConnection w t0)
             \<and> filter is_tag_update t = filter is_tag_update t0
             \<and> error_records t = error_records t0
             \<and> map (\<lambda>r. (customer_name r, customer_email r, customer_tags_before r,
                          customer_tags_after r, record_action r)) (webhook_records t)
                 = map (\<lambda>r. (customer_name r, customer_email r, customer_tags_before r,
                          customer_tags_after r, record_action r)) (webhook_records t0)
                   @ (if dbAvailable then
                        [(''Customer not identified'', ''email@not.identified.com'', [], [],
                          ''Added tag: chargeback_flag1'')]
                      else [])
             \<and> notifications t
                 = notifications t0
                   @ [SendWebhookNotification (Some d) (Some ''Added tag: chargeback_flag1'')
                        (Some ''Customer not identified'') (Some ''email@not.identified.com'')
                        (Some (if o_name ord \<noteq> [] then o_name ord
                               else CHR ''#'' # show_int (d_order_id d)))]"
  by (simp add: processChargeback_no_customer [OF assms])

theorem order_without_customer_witness:
  "(case processChargeback (example_world (Some (example_order None)) True)
           (example_runtime (example_dispute ''chargeback'')) (example_dispute ''chargeback'')
           None False [] of
      (result, dbAvailable, t) \<Rightarrow>
        success result \<and> statusCode result = Some 200
        \<and> filter is_tag_update t = []
        \<and> map (\<lambda>r. (customer_tags_before r, customer_tags_after r, record_action r))
              (webhook_records t) = [([], [], ''Added tag: chargeback_flag1'')]
        \<and> length (notifications t) = 1)"
proof -
  have found: "getOrder (example_world (Some (example_order None)) True)
                 (if False then [] else [] @ [TestConnection])
                 (d_order_id (example_dispute ''chargeback'')) = Some (example_order None)"
    by (simp add: example_world_def)
  have none: "customer (example_order None) = None"
    by (simp add: example_order_def)
  have up: "testConnection (example_world (Some (example_order None)) True) [] = True"
    by (simp add: example_world_def)
  from order_without_customer [OF found none, of "example_runtime (example_dispute ''chargeback'')" None] up
  show ?thesis
    by (auto split: prod.splits)
qed

section \<open>The tag update that fails\<close>

text \<open>
  C6. When the decision is to update and the order has a customer, the pipeline returns
  success with status 200 whether or not the remote update succeeds; the webhook record
  (written if the database is available) has the original tags as \<open>customer_tags_before\<close>,
  and as \<open>customer_tags_after\<close> the new tag string if the update returned true and the
  original tags if it returned false; the new tag string differs from the original, so
  \<open>customer_tags_after\<close> is the new string only when the update succeeded.
\<close>

theorem failed_tag_update_keeps_tags:
  assumes "getOrder w (if db0 then t0 else t0 @ [TestConnection]) (d_order_id d) = Some ord"
    and "customer ord = Some c"
    and "tags_or_empty (tags c) = TagsString customerTags"
    and "shouldUpdate (applyTagLogic customerTags)"
    and "updateSuccess =
           updateCustomerTags w ((if db0 then t0 else t0 @ [TestConnection]) @ [GetOrder (d_order_id d)])
             (c_id c) (newTags (applyTagLogic customerTags))"
  shows "case processChargeback w rt d req db0 t0 of
           (result, dbAvailable, t) \<Rightarrow>
             success result \<and> statusCode result = Some 200
             \<and> dbAvailable = (db0 \<or> testConnection w t0)
             \<and> error_records t = error_records t0
             \<and> map (\<lambda>r. (customer_tags_before r, customer_tags_after r)) (webhook_records t)
                 = map (\<lambda>r. (customer_tags_before r, customer_tags_after r)) (webhook_records t0)
                   @ (if dbAvailable then
                        [(customerTags,
                          if updateSuccess then newTags (applyTagLogic customerTags)
                          else customerTags)]
                      else [])
             \<and> newTags (applyTagLogic customerTags) \<noteq> customerTags
             \<and> length (notifications t) = Suc (length (notifications t0))"
  using newTags_changes [OF assms(4)]
  by (simp add: processChargeback_with_customer [OF assms(1-4)] assms(5))

theorem failed_tag_update_keeps_tags_witness:
  "(case processChargeback
           (example_world (Some (example_order (Some (example_customer (Some (TagsString ''vip'')))))) False)
           (example_runtime (example_dispute ''chargeback'')) (example_dispute ''chargeback'')
           None False [] of
      (result, dbAvailable, t) \<Rightarrow>
        success result \<and> statusCode result = Some 200
        \<and> map (\<lambda>r. (customer_tags_before r, customer_tags_after r)) (webhook_records t)
            = [(''vip'', ''vip'')])
   \<and> (case processChargeback
           (example_world (Some (example_order (Some (example_customer (Some (TagsString ''vip'')))))) True)
           (example_runtime (example_dispute ''chargeback'')) (example_dispute ''chargeback'')
           None False [] of
      (result, dbAvailable, t) \<Rightarrow>
        success result \<and> statusCode result = Some 200
        \<and> map (\<lambda>r. (customer_tags_before r, customer_tags_after r)) (webhook_records t)
            = [(''vip'', ''vip, chargeback_flag1'')])"
proof -
  let ?c = "example_customer (Some (TagsString ''vip''))"
  let ?ord = "example_order (Some ?c)"
  have found: "getOrder (example_world (Some ?ord) upd) (if False then [] else [] @ [TestConnection])
                 (d_order_id (example_dispute ''chargeback'')) = Some ?ord" for upd
    by (simp add: example_world_def)
  have cust: "customer ?ord = Some ?c"
    by (simp add: example_order_def)
  have tg: "tags_or_empty (tags ?c) = TagsString ''vip''"
    by (simp add: example_customer_def)
  have dec: "applyTagLogic ''vip'' =
      \<lparr>shouldUpdate = True, newTags = ''vip, chargeback_flag1'', action = ''Added tag: chargeback_flag1''\<rparr>"
    unfolding applyTagLogic_def str_includes_def by code_simp
  then have upd: "shouldUpdate (applyTagLogic ''vip'')"
    by simp
  have res: "upd = updateCustomerTags (example_world (Some ?ord) upd)
            ((if False then [] else [] @ [TestConnection]) @ [GetOrder (d_order_id (example_dispute ''chargeback''))])
            (c_id ?c) (newTags (applyTagLogic ''vip''))" for upd
    by (simp add: example_world_def)
  have up: "testConnection (example_world (Some ?ord) upd) [] = True" for upd
    by (simp add: example_world_def)
  from failed_tag_update_keeps_tags [OF found cust tg upd res, of False "example_runtime (example_dispute ''chargeback'')" None]
    failed_tag_update_keeps_tags [OF found cust tg upd res, of True "example_runtime (example_dispute ''chargeback'')" None]
    up dec
  show ?thesis
    by (auto split: prod.splits)
qed

section \<open>Signature verification\<close>

text \<open>
  C3, as the code has it. Without a configured secret (unset or empty) the verification
  returns false. With a secret and without a signature header (absent or empty) it
  returns true, whatever the body. With both, it returns true exactly when the presented
  signature and the base64 text of the HMAC-SHA256 digest of the request body under the
  secret decode to the same bytes, and false otherwise; equal texts are one such case.
  The request body is the argument \<open>body\<close>, which the handler sets to the text of the
  request.
\<close>

theorem validateShopifyWebhook_decides:
  "(\<not> truthy (env ''SHOPIFY_WEBHOOK_SECRET'')
      \<longrightarrow> validateShopifyWebhook rt env request body = Inr False)
   \<and> (truthy (env ''SHOPIFY_WEBHOOK_SECRET'')
       \<and> \<not> truthy (headers_get request ''X-Shopify-Hmac-Sha256'')
      \<longrightarrow> validateShopifyWebhook rt env request body = Inr True)
   \<and> (env ''SHOPIFY_WEBHOOK_SECRET'' = Some secret \<and> secret \<noteq> []
       \<and> headers_get request ''X-Shopify-Hmac-Sha256'' = Some presented \<and> presented \<noteq> []
      \<longrightarrow> (validateShopifyWebhook rt env request body = Inr True
             \<longleftrightarrow> buffer_from_base64 rt presented
                 = buffer_from_base64 rt
                     (hmac_sha256_base64 rt secret (or_else body (req_text request))))
          \<and> (validateShopifyWebhook rt env request body \<noteq> Inr True
             \<longleftrightarrow> validateShopifyWebhook rt env request body = Inr False)
          \<and> (presented = hmac_sha256_base64 rt secret (or_else body (req_text request))
             \<longrightarrow> validateShopifyWebhook rt env request body = Inr True)
          \<and> (validateShopifyWebhook rt env request (Some (req_text request)) = Inr True
             \<longleftrightarrow> buffer_from_base64 rt presented
                 = buffer_from_base64 rt (hmac_sha256_base64 rt secret (req_text request))))"
proof (intro conjI impI)
  assume "\<not> truthy (env ''SHOPIFY_WEBHOOK_SECRET'')"
  then show "validateShopifyWebhook rt env request body = Inr False"
    by (cases "env ''SHOPIFY_WEBHOOK_SECRET''")
       (simp_all add: validateShopifyWebhook_def validateShopifyWebhook_try_def)
next
  assume "truthy (env ''SHOPIFY_WEBHOOK_SECRET'')
          \<and> \<not> truthy (headers_get request ''X-Shopify-Hmac-Sha256'')"
  then show "validateShopifyWebhook rt env request body = Inr True"
    by (cases "env ''SHOPIFY_WEBHOOK_SECRET''"; cases "headers_get request ''X-Shopify-Hmac-Sha256''")
       (simp_all add: validateShopifyWebhook_def validateShopifyWebhook_try_def)
next
  assume a: "env ''SHOPIFY_WEBHOOK_SECRET'' = Some secret \<and> secret \<noteq> []
       \<and> headers_get request ''X-Shopify-Hmac-Sha256'' = Some presented \<and> presented \<noteq> []"
  then have run: "validateShopifyWebhook rt env request b =
      (case timingSafeEqual rt (buffer_from_base64 rt presented)
              (buffer_from_base64 rt (hmac_sha256_base64 rt secret (or_else b (req_text request)))) of
         Inl error \<Rightarrow> Inr False | Inr isValid \<Rightarrow> Inr isValid)" for b
    by (simp add: validateShopifyWebhook_def validateShopifyWebhook_try_def)
  show "validateShopifyWebhook rt env request body = Inr True
        \<longleftrightarrow> buffer_from_base64 rt presented
            = buffer_from_base64 rt (hmac_sha256_base64 rt secret (or_else body (req_text request)))"
    by (auto simp: run timingSafeEqual_def)
  show "validateShopifyWebhook rt env request body \<noteq> Inr True
        \<longleftrightarrow> validateShopifyWebhook rt env request body = Inr False"
    using validateShopifyWebhook_returns [of rt env request body] by auto
  show "validateShopifyWebhook rt env request body = Inr True"
    if "presented = hmac_sha256_base64 rt secret (or_else body (req_text request))"
    using that by (simp add: run timingSafeEqual_def)
  show "validateShopifyWebhook rt env request (Some (req_text request)) = Inr True
        \<longleftrightarrow> buffer_from_base64 rt presented
            = buffer_from_base64 rt (hmac_sha256_base64 rt secret (req_text request))"
    by (auto simp: run timingSafeEqual_def)
qed

lemma example_digest:
  "base64_decode ''J+avdKBhpfQNbQF2N2rjM3aOR3/fHR11aCiq8Rkv1mQ='' =
     [39, 230, 175, 116, 160, 97, 165, 244, 13, 109, 1, 118, 55, 106, 227, 51,
      118, 142, 71, 127, 223, 29, 29, 117, 104, 40, 170, 241, 25, 47, 214, 100]"
  by code_simp

lemma example_mutated_digest:
  "base64_decode ''K+avdKBhpfQNbQF2N2rjM3aOR3/fHR11aCiq8Rkv1mQ='' =
     [43, 230, 175, 116, 160, 97, 165, 244, 13, 109, 1, 118, 55, 106, 227, 51,
      118, 142, 71, 127, 223, 29, 29, 117, 104, 40, 170, 241, 25, 47, 214, 100]"
  by code_simp

lemma example_short_digest: "base64_decode ''J+av'' = [39, 230, 175]"
  by code_simp

lemma example_secret [simp]: "example_env ''SHOPIFY_WEBHOOK_SECRET'' = Some ''s''"
  by (simp add: example_env_def)

lemma signed_request_simps [simp]:
  "headers_get (signed_request sg body) ''X-Shopify-Hmac-Sha256'' = Some sg"
  "req_text (signed_request sg body) = body"
  by (simp_all add: signed_request_def)

lemma example_runtime_crypto [simp]:
  "hmac_sha256_base64 (example_runtime d) ''s'' ''b'' = ''J+avdKBhpfQNbQF2N2rjM3aOR3/fHR11aCiq8Rkv1mQ=''"
  "buffer_from_base64 (example_runtime d) = base64_decode"
  by (simp_all add: example_runtime_def)

theorem validateShopifyWebhook_decides_witness:
  "validateShopifyWebhook (example_runtime (example_dispute ''chargeback'')) (\<lambda>name. None)
     (signed_request ''J+avdKBhpfQNbQF2N2rjM3aOR3/fHR11aCiq8Rkv1mQ='' ''b'') (Some ''b'') = Inr False
   \<and> validateShopifyWebhook (example_runtime (example_dispute ''chargeback'')) example_env
       (example_request ''disputes/create'' ''b'') (Some ''b'') = Inr True
   \<and> validateShopifyWebhook (example_runtime (example_dispute ''chargeback'')) example_env
       (signed_request ''J+avdKBhpfQNbQF2N2rjM3aOR3/fHR11aCiq8Rkv1mQ='' ''b'') (Some ''b'') = Inr True
   \<and> validateShopifyWebhook (example_runtime (example_dispute ''chargeback'')) example_env
       (signed_request ''K+avdKBhpfQNbQF2N2rjM3aOR3/fHR11aCiq8Rkv1mQ='' ''b'') (Some ''b'') = Inr False"
proof -
  let ?rt = "example_runtime (example_dispute ''chargeback'')"
  let ?good = "''J+avdKBhpfQNbQF2N2rjM3aOR3/fHR11aCiq8Rkv1mQ=''"
  let ?bad = "''K+avdKBhpfQNbQF2N2rjM3aOR3/fHR11aCiq8Rkv1mQ=''"
  have nosecret: "\<not> truthy ((\<lambda>name. None) ''SHOPIFY_WEBHOOK_SECRET'')"
    by simp
  have nohdr: "truthy (example_env ''SHOPIFY_WEBHOOK_SECRET'')
       \<and> \<not> truthy (headers_get (example_request ''disputes/create'' ''b'') ''X-Shopify-Hmac-Sha256'')"
    by (simp add: example_request_def)
  have both: "example_env ''SHOPIFY_WEBHOOK_SECRET'' = Some ''s'' \<and> ''s'' \<noteq> []
       \<and> headers_get (signed_request sg ''b'') ''X-Shopify-Hmac-Sha256'' = Some sg" for sg
    by simp
  have differ: "base64_decode ?bad \<noteq> base64_decode ?good"
    unfolding example_digest example_mutated_digest by simp
  from validateShopifyWebhook_decides [where env = "\<lambda>name. None" and rt = ?rt
      and request = "signed_request ?good ''b''" and body = "Some ''b''"] nosecret
  have 1: "validateShopifyWebhook ?rt (\<lambda>name. None) (signed_request ?good ''b'') (Some ''b'') = Inr False"
    by blast
  from validateShopifyWebhook_decides [where env = example_env and rt = ?rt
      and request = "example_request ''disputes/create'' ''b''" and body = "Some ''b''"] nohdr
  have 2: "validateShopifyWebhook ?rt example_env (example_request ''disputes/create'' ''b'') (Some ''b'') = Inr True"
    by blast
  from validateShopifyWebhook_decides [where env = example_env and rt = ?rt and secret = "''s''"
      and request = "signed_request ?good ''b''" and presented = ?good and body = "Some ''b''"]
    both [of ?good]
  have 3: "validateShopifyWebhook ?rt example_env (signed_request ?good ''b'') (Some ''b'') = Inr True"
    by simp
  from validateShopifyWebhook_decides [where env = example_env and rt = ?rt and secret = "''s''"
      and request = "signed_request ?bad ''b''" and presented = ?bad and body = "Some ''b''"]
    both [of ?bad] differ
  have 4: "validateShopifyWebhook ?rt example_env (signed_request ?bad ''b'') (Some ''b'') = Inr False"
    by auto
  from 1 2 3 4 show ?thesis
    by simp
qed

text \<open>
  The claim as stated, that the result is true only if the presented signature is the
  base64 text of the digest, fails: \<open>Buffer.from(s, 'base64')\<close> reads text without the
  padding character and ignores the unused low bits of the last character, so the digest
  text of the body \<open>b\<close> under the secret \<open>s\<close> without its final \<open>=\<close>, and the same text
  with the last letter \<open>Q\<close> changed to \<open>R\<close>, are both accepted although they differ
  from the digest text.
\<close>

theorem other_signature_text_counterexample:
  "hmac_sha256_base64 chargeback_runtime ''s'' ''b''
     = ''J+avdKBhpfQNbQF2N2rjM3aOR3/fHR11aCiq8Rkv1mQ=''
   \<and> ''J+avdKBhpfQNbQF2N2rjM3aOR3/fHR11aCiq8Rkv1mQ''
       \<noteq> hmac_sha256_base64 chargeback_runtime ''s'' ''b''
   \<and> validateShopifyWebhook chargeback_runtime example_env
         (signed_request ''J+avdKBhpfQNbQF2N2rjM3aOR3/fHR11aCiq8Rkv1mQ'' ''b'') (Some ''b'')
       = Inr True
   \<and> ''J+avdKBhpfQNbQF2N2rjM3aOR3/fHR11aCiq8Rkv1mR=''
       \<noteq> hmac_sha256_base64 chargeback_runtime ''s'' ''b''
   \<and> validateShopifyWebhook chargeback_runtime example_env
         (signed_request ''J+avdKBhpfQNbQF2N2rjM3aOR3/fHR11aCiq8Rkv1mR='' ''b'') (Some ''b'')
       = Inr True"
  by code_simp

section \<open>Totality of the signature verification\<close>

text \<open>
  C10. \<open>validateShopifyWebhook\<close> returns a boolean on every input and never passes an
  exception on. When secret and signature header are present, the expected digest
  decodes to 32 bytes and the presented signature decodes to another number of bytes,
  then the comparison throws, and the function returns false.
\<close>

theorem validateShopifyWebhook_total:
  "(\<exists>isValid. validateShopifyWebhook rt env request body = Inr isValid)
   \<and> (env ''SHOPIFY_WEBHOOK_SECRET'' = Some secret \<and> secret \<noteq> []
       \<and> headers_get request ''X-Shopify-Hmac-Sha256'' = Some presented \<and> presented \<noteq> []
       \<and> length (buffer_from_base64 rt
                   (hmac_sha256_base64 rt secret (or_else body (req_text request)))) = 32
       \<and> length (buffer_from_base64 rt presented) \<noteq> 32
      \<longrightarrow> timingSafeEqual rt (buffer_from_base64 rt presented)
             (buffer_from_base64 rt
                (hmac_sha256_base64 rt secret (or_else body (req_text request))))
            = Inl (buffer_length_mismatch rt)
          \<and> validateShopifyWebhook_try rt env request body = Inl (buffer_length_mismatch rt)
          \<and> validateShopifyWebhook rt env request body = Inr False)"
proof (intro conjI impI)
  show "\<exists>isValid. validateShopifyWebhook rt env request body = Inr isValid"
    using validateShopifyWebhook_returns [of rt env request body] by blast
next
  assume a: "env ''SHOPIFY_WEBHOOK_SECRET'' = Some secret \<and> secret \<noteq> []
       \<and> headers_get request ''X-Shopify-Hmac-Sha256'' = Some presented \<and> presented \<noteq> []
       \<and> length (buffer_from_base64 rt
                   (hmac_sha256_base64 rt secret (or_else body (req_text request)))) = 32
       \<and> length (buffer_from_base64 rt presented) \<noteq> 32"
  then show thrown: "timingSafeEqual rt (buffer_from_base64 rt presented)
             (buffer_from_base64 rt
                (hmac_sha256_base64 rt secret (or_else body (req_text request))))
            = Inl (buffer_length_mismatch rt)"
    by (simp add: timingSafeEqual_def)
  from a thrown show t: "validateShopifyWebhook_try rt env request body = Inl (buffer_length_mismatch rt)"
    by (simp add: validateShopifyWebhook_try_def)
  then show "validateShopifyWebhook rt env request body = Inr False"
    by (simp add: validateShopifyWebhook_def)
qed

theorem validateShopifyWebhook_total_witness:
  "validateShopifyWebhook_try (example_runtime (example_dispute ''chargeback'')) example_env
     (signed_request ''J+av'' ''b'') (Some ''b'')
     = Inl (buffer_length_mismatch (example_runtime (example_dispute ''chargeback'')))
   \<and> validateShopifyWebhook (example_runtime (example_dispute ''chargeback'')) example_env
       (signed_request ''J+av'' ''b'') (Some ''b'') = Inr False"
proof -
  let ?rt = "example_runtime (example_dispute ''chargeback'')"
  have hyp: "example_env ''SHOPIFY_WEBHOOK_SECRET'' = Some ''s'' \<and> ''s'' \<noteq> []
       \<and> headers_get (signed_request ''J+av'' ''b'') ''X-Shopify-Hmac-Sha256'' = Some ''J+av''
       \<and> ''J+av'' \<noteq> []
       \<and> length (buffer_from_base64 ?rt
                   (hmac_sha256_base64 ?rt ''s''
                      (or_else (Some ''b'') (req_text (signed_request ''J+av'' ''b''))))) = 32
       \<and> length (buffer_from_base64 ?rt ''J+av'') \<noteq> 32"
    by (simp add: example_digest example_short_digest)
  from validateShopifyWebhook_total [where env = example_env and rt = ?rt and secret = "''s''"
      and request = "signed_request ''J+av'' ''b''" and presented = "''J+av''"
      and body = "Some ''b''"] hyp
  show ?thesis
    by blast
qed

section \<open>The dispute of another type\<close>

text \<open>
  C5. A request that passes the signature, topic and domain checks and whose payload has
  a type other than \<open>chargeback\<close> is answered with status 400; the error record (written
  if the database is up) has code 400 and kind UnsupportedDisputeType; the run contains
  no call of \<open>getOrder\<close> and none of \<open>updateCustomerTags\<close>. Every run of the pipeline
  contains such a call, so the pipeline was not entered.
\<close>

theorem unsupported_dispute_type_rejected:
  assumes "passes_gates rt env request"
    and "json_parse rt (req_text request) = JsonDispute d"
    and "d_type d \<noteq> ''chargeback''"
  shows "(case handler w rt env request of
            (response, t) \<Rightarrow>
              response = \<lparr>resp_status = 400, resp_body = Some ''Unsupported dispute type''\<rparr>
              \<and> \<not> list_ex is_commerce t
              \<and> map http_code (error_records t) = (if testConnection w [] then [400] else [])
              \<and> map error_type (error_records t)
                  = (if testConnection w [] then [''UnsupportedDisputeType''] else [])
              \<and> webhook_records t = []
              \<and> (\<forall>dispute req db0 t0.
                    snd (snd (processChargeback w rt dispute req db0 t0)) \<noteq> t))
         \<and> (\<forall>dispute req db0 t0.
               list_ex is_commerce (snd (snd (processChargeback w rt dispute req db0 t0))))"
proof -
  have run: "handler w rt env request =
      (\<lparr>resp_status = 400, resp_body = Some ''Unsupported dispute type''\<rparr>,
       persistError w
         \<lparr>http_code = 400,
          error_message = ''Unsupported dispute type: '' @ d_type d,
          error_type = ''UnsupportedDisputeType'',
          function_name = ''ChargebackWebhook.handler'',
          error_order_id = None, error_dispute_id = Some (d_id d),
          error_customer_email = None, stack_trace = None,
          request_data = Some (sanitizeRequestData rt (json_stringify rt d)),
          environment = getEnvironment request\<rparr> []
       @ [SendWebhookNotification (Some d) (Some (''Unsupported dispute type: '' @ d_type d))
            None None None])"
    using assms by (simp add: handler_def handler_try_def passes_gates_def Let_def)
  have none: "\<not> list_ex is_commerce (snd (handler w rt env request))"
    by (simp add: run persistError_no_commerce)
  have entered: "list_ex is_commerce (snd (snd (processChargeback w rt dispute req db0 t0)))"
    for dispute req db0 t0
    by (rule processChargeback_calls_getOrder)
  from none entered
  have differs: "snd (snd (processChargeback w rt dispute req db0 t0)) \<noteq> snd (handler w rt env request)"
    for dispute req db0 t0
    by metis
  show ?thesis
    using none entered differs by (simp add: run)
qed

theorem unsupported_dispute_type_rejected_witness:
  "fst (handler (example_world None True) (example_runtime (example_dispute ''refund'')) example_env
          (example_request ''disputes/create'' (dispute_json (example_dispute ''refund''))))
     = \<lparr>resp_status = 400, resp_body = Some ''Unsupported dispute type''\<rparr>
   \<and> \<not> list_ex is_commerce
         (snd (handler (example_world None True) (example_runtime (example_dispute ''refund''))
                 example_env
                 (example_request ''disputes/create'' (dispute_json (example_dispute ''refund'')))))
   \<and> map error_type (error_records
         (snd (handler (example_world None True) (example_runtime (example_dispute ''refund''))
                 example_env
                 (example_request ''disputes/create'' (dispute_json (example_dispute ''refund''))))))
       = [''UnsupportedDisputeType'']"
proof -
  have ty: "d_type (example_dispute ''refund'') \<noteq> ''chargeback''"
    by simp
  have up: "testConnection (example_world None True) [] = True"
    by (simp add: example_world_def)
  from unsupported_dispute_type_rejected [OF example_passes_gates example_parse ty,
      of "example_world None True"] up
  show ?thesis
    by (simp add: case_prod_beta)
qed

section \<open>Records and notifications of one event\<close>





section \<open>The order of writing and notifying\<close>




section \<open>Sanitising a malformed body\<close>

lemma replace_all_absent: "c \<notin> set s \<Longrightarrow> replace_all c r s = s"
  by (induction s) (auto simp: replace_all_def)

lemma control_characters:
  "is_control (CHR 0x0A)" "is_control (CHR 0x0D)" "is_control (CHR 0x09)"
  by (simp_all add: is_control_def)

lemma escapes_never_apply:
  "replace_all (CHR 0x09) r3
     (replace_all (CHR 0x0D) r2
       (replace_all (CHR 0x0A) r1 (filter (\<lambda>c. \<not> is_control c) data)))
   = filter (\<lambda>c. \<not> is_control c) data"
  using control_characters by (auto simp: replace_all_absent)

lemma sanitizeRequestData_invalid:
  assumes "json_parse rt data = SyntaxError parseMessage"
  shows "sanitizeRequestData rt data =
           CHR ''{'' # json_quote ''original_data'' @ CHR '':''
             # json_quote (filter (\<lambda>c. \<not> is_control c) data)
           @ CHR '','' # json_quote ''length'' @ CHR '':'' # show_nat (length data)
           @ CHR '','' # json_quote ''error'' @ CHR '':'' # json_quote ''Invalid JSON data''
           @ [CHR ''}'']"
  using assms by (simp add: sanitizeRequestData_def escapes_never_apply)

lemma sanitizeRequestData_valid:
  assumes "\<forall>parseMessage. json_parse rt data \<noteq> SyntaxError parseMessage"
  shows "sanitizeRequestData rt data = data"
  using assms by (cases "json_parse rt data") (simp_all add: sanitizeRequestData_def)

lemma malformed_json_rejected:
  assumes "passes_gates rt env request"
    and "json_parse rt (req_text request) = SyntaxError parseMessage"
  shows "handler w rt env request =
           (\<lparr>resp_status = 400, resp_body = Some ''Invalid JSON''\<rparr>,
            persistError w
              \<lparr>http_code = 400,
               error_message = ''JSON parse error: '' @ parseMessage,
               error_type = ''JSONParseError'',
               function_name = ''ChargebackWebhook.handler'',
               error_order_id = None, error_dispute_id = None,
               error_customer_email = None, stack_trace = None,
               request_data = Some (sanitizeRequestData rt (req_text request)),
               environment = getEnvironment request\<rparr> []
            @ [SendWebhookNotification None (Some (''JSON parse error: '' @ parseMessage))
                 None None None])"
  using assms by (simp add: handler_def handler_try_def passes_gates_def Let_def)

text \<open>
  C7. The body made of an opening brace, a line feed, a tab and the letter x is not valid
  JSON. The handler answers 400 and writes an error record whose \<open>request_data\<close> is the
  wrapped object, but the line feed and the tab are removed from \<open>original_data\<close>
  together with the other control characters: the text stored is the brace and the
  letter, without the two-character escapes that the later replacements would produce.
\<close>

theorem sanitizeRequestData_drops_line_feed_and_tab:
  "fst (handler (example_world None True) chargeback_runtime example_env
          (example_request ''disputes/create'' [CHR ''{'', CHR 0x0A, CHR 0x09, CHR ''x'']))
     = \<lparr>resp_status = 400, resp_body = Some ''Invalid JSON''\<rparr>
   \<and> map request_data
         (error_records (snd (handler (example_world None True) chargeback_runtime example_env
            (example_request ''disputes/create'' [CHR ''{'', CHR 0x0A, CHR 0x09, CHR ''x'']))))
     = [Some (sanitizeRequestData chargeback_runtime [CHR ''{'', CHR 0x0A, CHR 0x09, CHR ''x''])]
   \<and> sanitizeRequestData chargeback_runtime [CHR ''{'', CHR 0x0A, CHR 0x09, CHR ''x'']
     = CHR ''{'' # json_quote ''original_data'' @ '':'' @ json_quote ''{x''
       @ '','' @ json_quote ''length'' @ '':4,'' @ json_quote ''error'' @ '':''
       @ json_quote ''Invalid JSON data'' @ ''}''
   \<and> sanitizeRequestData chargeback_runtime [CHR ''{'', CHR 0x0A, CHR 0x09, CHR ''x'']
     \<noteq> CHR ''{'' # json_quote ''original_data'' @ '':''
         @ json_quote [CHR ''{'', CHR 0x5C, CHR ''n'', CHR 0x5C, CHR ''t'', CHR ''x'']
       @ '','' @ json_quote ''length'' @ '':4,'' @ json_quote ''error'' @ '':''
       @ json_quote ''Invalid JSON data'' @ ''}''"
  by code_simp

end
